theory Spec2Isabelle
  imports Main
begin

section \<open>Python values: exceptions, string splitting, indexing\<close>

text \<open>
  The exceptions that \<^verbatim>\<open>fetch_to_python\<close> can raise: \<^verbatim>\<open>FeedEnd\<close> is the repository's
  own, the others are Python's built-in ones, raised by indexing, attribute access and
  tuple unpacking. A computation that may raise returns \<open>error + 'a\<close>.
\<close>

datatype error = FeedEnd | TypeError | KeyError | AttributeError | IndexError | ValueError

definition and_then :: "error + 'a \<Rightarrow> ('a \<Rightarrow> error + 'b) \<Rightarrow> error + 'b" where
  "and_then r f = (case r of Inl e \<Rightarrow> Inl e | Inr x \<Rightarrow> f x)"

text \<open>\<^verbatim>\<open>s.split(c)\<close> for a one-character separator: every occurrence cuts, empty pieces stay.\<close>

fun split_on :: "char \<Rightarrow> string \<Rightarrow> string list" where
  "split_on c [] = [[]]"
| "split_on c (x # xs) =
     (if x = c then [] # split_on c xs
      else (case split_on c xs of [] \<Rightarrow> [[x]] | p # ps \<Rightarrow> (x # p) # ps))"

text \<open>\<^verbatim>\<open>xs[i]\<close> for a list and a non-negative literal index.\<close>

definition item_at :: "'a list \<Rightarrow> nat \<Rightarrow> error + 'a" where
  "item_at xs i = (if i < length xs then Inr (xs ! i) else Inl IndexError)"

text \<open>\<^verbatim>\<open>a, b = tuple(xs)\<close>: exactly two elements, or ValueError.\<close>

fun unpack2 :: "'a list \<Rightarrow> error + ('a \<times> 'a)" where
  "unpack2 [a, b] = Inr (a, b)"
| "unpack2 xs = Inl ValueError"

text \<open>A loop that appends at most one item per element and stops at the first exception.\<close>

fun for_each :: "('a \<Rightarrow> error + 'b list) \<Rightarrow> 'a list \<Rightarrow> error + 'b list" where
  "for_each body [] = Inr []"
| "for_each body (x # xs) =
     and_then (body x) (\<lambda>ys. and_then (for_each body xs) (\<lambda>zs. Inr (ys @ zs)))"

section \<open>The collaborators: selector registry, markup tree, transport\<close>

text \<open>
  The descriptors imported from \<^verbatim>\<open>telegram_types\<close> whose \<^verbatim>\<open>.selector\<close> the function reads.
  The module itself is not part of the sources at hand, so the selector of each descriptor
  is a parameter (\<open>selector\<close> below). The \<^verbatim>\<open>.name\<close> of a descriptor only labels the output
  dictionaries; it is represented by the record field or the constructor that carries the
  value.
\<close>

datatype field =
    TEXT | PHOTO | VIDEO | VOICE | DOCUMENT | LOCATION | POLL | UNSUPPORTED_MEDIA
  | MESSAGE_AUTHOR | MESSAGE_DATE | MESSAGE_VIEWS | MESSAGE_VOTERS | MESSAGE_NUMBER
  | VIDEO_DURATION | VIDEO_THUMB | VOICE_URL | VOICE_DURATION
  | DOCUMENT_TITLE | DOCUMENT_SIZE
  | POLL_QUESTION | POLL_TYPE | POLL_OPTIONS | POLL_OPTION_PERCENT | POLL_OPTION_VALUE
  | UNSUPPORTED_MEDIA_URL

text \<open>
  A request is the URL and the value of the \<^verbatim>\<open>before\<close> parameter (\<^verbatim>\<open>None\<close> when the
  cursor is unset). The transport object is represented by the exchanges made through it
  so far, each a request with the parsed document it was answered with.
\<close>

type_synonym request = "string \<times> string option"

text \<open>
  Everything \<^verbatim>\<open>fetch_to_python\<close> calls and does not define, over a type \<open>'t\<close> of tags:
  \<^item> \<open>select t s\<close> is \<^verbatim>\<open>t.select(s)\<close>, the matches in document order;
  \<^item> \<open>attrs t\<close> is the attribute dictionary read by \<^verbatim>\<open>t[key]\<close>;
  \<^item> \<open>tag_text t\<close> is \<^verbatim>\<open>t.text\<close>;
  \<^item> \<open>http_get h r\<close> is \<^verbatim>\<open>BeautifulSoup(session_object.get(url, params).text, "lxml")\<close>
    for the request \<open>r\<close> after the exchanges \<open>h\<close>;
  \<^item> \<open>parse_query u\<close> is \<^verbatim>\<open>parse_qs(urlparse(u).query)\<close>, the dictionary from names
    to their lists of values, or the ValueError that \<^verbatim>\<open>urlparse\<close> raises on a URL it
    refuses;
  \<^item> \<open>selector f\<close> is \<^verbatim>\<open>f.selector\<close>.
\<close>

record 't env =
  select :: "'t \<Rightarrow> string \<Rightarrow> 't list"
  attrs :: "'t \<Rightarrow> string \<rightharpoonup> string"
  tag_text :: "'t \<Rightarrow> string"
  http_get :: "(request \<times> 't) list \<Rightarrow> request \<Rightarrow> 't"
  parse_query :: "string \<Rightarrow> error + (string \<rightharpoonup> string list)"
  selector :: "field \<Rightarrow> string"

text \<open>\<^verbatim>\<open>t.select_one(s)\<close>: the first match, or \<^verbatim>\<open>None\<close>.\<close>

definition select_one :: "'t env \<Rightarrow> 't \<Rightarrow> string \<Rightarrow> 't option" where
  "select_one E t s = (case select E t s of [] \<Rightarrow> None | x # _ \<Rightarrow> Some x)"

text \<open>\<^verbatim>\<open>t[key]\<close> on a tag: KeyError when the attribute is absent.\<close>

definition tag_getitem :: "'t env \<Rightarrow> 't \<Rightarrow> string \<Rightarrow> error + string" where
  "tag_getitem E t k = (case attrs E t k of None \<Rightarrow> Inl KeyError | Some v \<Rightarrow> Inr v)"

text \<open>\<^verbatim>\<open>x[key]\<close> on the result of \<^verbatim>\<open>select_one\<close>: subscripting \<^verbatim>\<open>None\<close> is a TypeError.\<close>

definition getitem :: "'t env \<Rightarrow> 't option \<Rightarrow> string \<Rightarrow> error + string" where
  "getitem E x k = (case x of None \<Rightarrow> Inl TypeError | Some t \<Rightarrow> tag_getitem E t k)"

text \<open>\<^verbatim>\<open>x.text\<close> on the result of \<^verbatim>\<open>select_one\<close>: \<^verbatim>\<open>None\<close> has no attribute \<^verbatim>\<open>text\<close>.\<close>

definition getattr_text :: "'t env \<Rightarrow> 't option \<Rightarrow> error + string" where
  "getattr_text E x = (case x of None \<Rightarrow> Inl AttributeError | Some t \<Rightarrow> Inr (tag_text E t))"

text \<open>
  \<^verbatim>\<open>rs[key]\<close> and \<^verbatim>\<open>rs.text\<close> on the list returned by \<^verbatim>\<open>select\<close>: a list is indexed by
  integers only, and the result set has no attribute \<^verbatim>\<open>text\<close>.
\<close>

definition resultset_getitem :: "'t list \<Rightarrow> string \<Rightarrow> error + string" where
  "resultset_getitem rs k = Inl TypeError"

definition resultset_text :: "'t list \<Rightarrow> error + string" where
  "resultset_text rs = Inl AttributeError"

text \<open>\<^verbatim>\<open>try: v = x.text except AttributeError: v = None\<close>.\<close>

definition text_or_none :: "'t env \<Rightarrow> 't option \<Rightarrow> error + string option" where
  "text_or_none E x =
     (case getattr_text E x of
        Inr v \<Rightarrow> Inr (Some v)
      | Inl AttributeError \<Rightarrow> Inr None
      | Inl e \<Rightarrow> Inl e)"

section \<open>Output data\<close>

record poll_option =
  percent :: string
  option_value :: string

text \<open>
  One entry of \<^verbatim>\<open>contents\<close>; the constructor stands for the \<^verbatim>\<open>"type"\<close> key. A document
  keeps the whole result sets of its title and size selectors.
\<close>

datatype 't content =
    Text string
  | Photo string
  | Video string string string
  | Voice string string
  | Document string "'t list" "'t list"
  | Location string string string
  | Poll string string "poll_option list"
  | UnsupportedMedia string

record 't message =
  number :: string
  author :: string
  date :: string
  views :: "string option"
  votes :: "string option"
  contents :: "'t content list"

section \<open>The channel object\<close>

definition TELEGRAM_URL :: string where
  "TELEGRAM_URL = ''https://t.me''"

record 't TGChannel =
  channel_id :: string
  position :: "string option"
  session_object :: "(request \<times> 't) list"

section \<open>The page loop\<close>

text \<open>
  The \<^verbatim>\<open>for _ in range(pages_to_fetch)\<close> loop, with the object and \<^verbatim>\<open>all_bubbles\<close>
  passed through. A missing pagination element makes the subscript a TypeError: the cursor
  becomes \<^verbatim>\<open>"0"\<close> and the body goes on. An element without \<^verbatim>\<open>data-before\<close> makes it a
  KeyError: the cursor becomes \<^verbatim>\<open>"0"\<close> and the loop is left before the bubbles are read.
\<close>

fun page_loop :: "'t env \<Rightarrow> nat \<Rightarrow> 't TGChannel \<Rightarrow> 't list \<Rightarrow> 't TGChannel \<times> (error + 't list)" where
  "page_loop E 0 self all_bubbles = (self, Inr all_bubbles)"
| "page_loop E (Suc n) self all_bubbles =
     (let url = TELEGRAM_URL @ ''/s/'' @ channel_id self;
          params = position self;
          soup = http_get E (session_object self) (url, params);
          self1 = self\<lparr>session_object := session_object self @ [((url, params), soup)]\<rparr>;
          bubbles = select E soup ''.tgme_widget_message_bubble''
      in case getitem E (select_one E soup ''.tme_messages_more'') ''data-before'' of
           Inr p \<Rightarrow> page_loop E n (self1\<lparr>position := Some p\<rparr>) (all_bubbles @ rev bubbles)
         | Inl TypeError \<Rightarrow>
             page_loop E n (self1\<lparr>position := Some ''0''\<rparr>) (all_bubbles @ rev bubbles)
         | Inl KeyError \<Rightarrow> (self1\<lparr>position := Some ''0''\<rparr>, Inr all_bubbles)
         | Inl e \<Rightarrow> (self1, Inl e))"

section \<open>Decoding one bubble\<close>

definition get_texts :: "'t env \<Rightarrow> 't \<Rightarrow> error + 't content list" where
  "get_texts E bubble =
     for_each (\<lambda>text. Inr [Text (tag_text E text)]) (select E bubble (selector E TEXT))"

definition photo_item :: "'t env \<Rightarrow> 't \<Rightarrow> error + 't content list" where
  "photo_item E photo =
     and_then (tag_getitem E photo ''style'') (\<lambda>style.
     and_then (item_at (split_on (CHR 39) style) 1) (\<lambda>photo_url.
     Inr [Photo photo_url]))"

definition get_photos :: "'t env \<Rightarrow> 't \<Rightarrow> error + 't content list" where
  "get_photos E bubble = for_each (photo_item E) (select E bubble (selector E PHOTO))"

definition video_item :: "'t env \<Rightarrow> 't \<Rightarrow> error + 't content list" where
  "video_item E video =
     and_then (tag_getitem E video ''href'') (\<lambda>video_url.
     and_then (getitem E (select_one E video (selector E VIDEO_THUMB)) ''style'') (\<lambda>style.
     and_then (item_at (split_on (CHR 39) style) 1) (\<lambda>video_thumb_url.
     and_then (getattr_text E (select_one E video (selector E VIDEO_DURATION))) (\<lambda>video_duration.
     Inr [Video video_url video_thumb_url video_duration]))))"

definition get_videos :: "'t env \<Rightarrow> 't \<Rightarrow> error + 't content list" where
  "get_videos E bubble = for_each (video_item E) (select E bubble (selector E VIDEO))"

text \<open>The voice loop subscripts and reads \<^verbatim>\<open>.text\<close> of what \<^verbatim>\<open>select\<close> returns.\<close>

definition voice_item :: "'t env \<Rightarrow> 't \<Rightarrow> error + 't content list" where
  "voice_item E voice =
     and_then (resultset_getitem (select E voice (selector E VOICE_URL)) ''src'') (\<lambda>voice_url.
     and_then (resultset_text (select E voice (selector E VOICE_DURATION))) (\<lambda>voice_duration.
     Inr [Voice voice_url voice_duration]))"

definition get_voices :: "'t env \<Rightarrow> 't \<Rightarrow> error + 't content list" where
  "get_voices E bubble = for_each (voice_item E) (select E bubble (selector E VOICE))"

definition document_item :: "'t env \<Rightarrow> 't \<Rightarrow> error + 't content list" where
  "document_item E document =
     and_then (tag_getitem E document ''href'') (\<lambda>document_url.
     Inr [Document document_url
            (select E document (selector E DOCUMENT_TITLE))
            (select E document (selector E DOCUMENT_SIZE))])"

definition get_documents :: "'t env \<Rightarrow> 't \<Rightarrow> error + 't content list" where
  "get_documents E bubble = for_each (document_item E) (select E bubble (selector E DOCUMENT))"

text \<open>\<^verbatim>\<open>d[key]\<close> on the dictionary of \<^verbatim>\<open>parse_qs\<close>.\<close>

definition dict_getitem :: "('k \<rightharpoonup> 'v) \<Rightarrow> 'k \<Rightarrow> error + 'v" where
  "dict_getitem d k = (case d k of None \<Rightarrow> Inl KeyError | Some v \<Rightarrow> Inr v)"

definition location_item :: "'t env \<Rightarrow> 't \<Rightarrow> error + 't content list" where
  "location_item E location =
     and_then (tag_getitem E location ''href'') (\<lambda>url.
     and_then (parse_query E url) (\<lambda>query.
     and_then (dict_getitem query ''q'') (\<lambda>qs.
     and_then (item_at qs 0) (\<lambda>q.
     and_then (dict_getitem query ''z'') (\<lambda>zs.
     and_then (item_at zs 0) (\<lambda>zoom.
     and_then (unpack2 (split_on (CHR '','') q)) (\<lambda>(latitude, longitude).
     Inr [Location
            (''https://www.openstreetmap.org/''
               @ ''?lat='' @ latitude @ ''&lon='' @ longitude @ ''&zoom='' @ zoom @ ''&layers=M'')
            latitude longitude])))))))"

definition get_locations :: "'t env \<Rightarrow> 't \<Rightarrow> error + 't content list" where
  "get_locations E bubble = for_each (location_item E) (select E bubble (selector E LOCATION))"

definition poll_option_item :: "'t env \<Rightarrow> 't \<Rightarrow> error + poll_option list" where
  "poll_option_item E opt =
     and_then (getattr_text E (select_one E opt (selector E POLL_OPTION_PERCENT))) (\<lambda>option_percent.
     and_then (getattr_text E (select_one E opt (selector E POLL_OPTION_VALUE))) (\<lambda>option_value.
     Inr [\<lparr>percent = option_percent, option_value = option_value\<rparr>]))"

definition poll_item :: "'t env \<Rightarrow> 't \<Rightarrow> error + 't content list" where
  "poll_item E poll =
     and_then (getattr_text E (select_one E poll (selector E POLL_QUESTION))) (\<lambda>poll_question.
     and_then (getattr_text E (select_one E poll (selector E POLL_TYPE))) (\<lambda>poll_type.
     and_then (for_each (poll_option_item E) (select E poll (selector E POLL_OPTIONS))) (\<lambda>poll_options.
     Inr [Poll poll_question poll_type poll_options])))"

definition get_polls :: "'t env \<Rightarrow> 't \<Rightarrow> error + 't content list" where
  "get_polls E bubble = for_each (poll_item E) (select E bubble (selector E POLL))"

text \<open>The only loop with a handler: a KeyError of the subscript skips the node.\<close>

definition unsupported_media_item :: "'t env \<Rightarrow> 't \<Rightarrow> error + 't content list" where
  "unsupported_media_item E media =
     (case getitem E (select_one E media (selector E UNSUPPORTED_MEDIA_URL)) ''href'' of
        Inr url \<Rightarrow> Inr [UnsupportedMedia url]
      | Inl KeyError \<Rightarrow> Inr []
      | Inl e \<Rightarrow> Inl e)"

definition get_unsupported_medias :: "'t env \<Rightarrow> 't \<Rightarrow> error + 't content list" where
  "get_unsupported_medias E bubble =
     for_each (unsupported_media_item E) (select E bubble (selector E UNSUPPORTED_MEDIA))"

text \<open>
  The body of \<^verbatim>\<open>for bubble in all_bubbles\<close>: the five metadata reads in the order of the
  source, then the eight content loops in the order of the source, each appending to
  \<^verbatim>\<open>contents\<close>.
\<close>

definition get_contents :: "'t env \<Rightarrow> 't \<Rightarrow> error + 't content list" where
  "get_contents E bubble =
     and_then (get_texts E bubble) (\<lambda>c1.
     and_then (get_photos E bubble) (\<lambda>c2.
     and_then (get_videos E bubble) (\<lambda>c3.
     and_then (get_voices E bubble) (\<lambda>c4.
     and_then (get_documents E bubble) (\<lambda>c5.
     and_then (get_locations E bubble) (\<lambda>c6.
     and_then (get_polls E bubble) (\<lambda>c7.
     and_then (get_unsupported_medias E bubble) (\<lambda>c8.
     Inr (c1 @ c2 @ c3 @ c4 @ c5 @ c6 @ c7 @ c8)))))))))"

definition decode_bubble :: "'t env \<Rightarrow> 't \<Rightarrow> error + 't message list" where
  "decode_bubble E bubble =
     and_then (getitem E (select_one E bubble (selector E MESSAGE_NUMBER)) ''href'') (\<lambda>href.
     and_then (item_at (split_on (CHR ''/'') href) 4) (\<lambda>number.
     and_then (getattr_text E (select_one E bubble (selector E MESSAGE_AUTHOR))) (\<lambda>author.
     and_then (getitem E (select_one E bubble (selector E MESSAGE_DATE)) ''datetime'') (\<lambda>date.
     and_then (text_or_none E (select_one E bubble (selector E MESSAGE_VIEWS))) (\<lambda>views.
     and_then (text_or_none E (select_one E bubble (selector E MESSAGE_VOTERS))) (\<lambda>votes.
     and_then (get_contents E bubble) (\<lambda>contents.
     Inr [\<lparr>number = number, author = author, date = date, views = views, votes = votes,
           contents = contents\<rparr>])))))))"

section \<open>fetch_to_python\<close>

text \<open>
  The method returns the object as it is left (the cursor and the exchanges made), and
  either the exception raised or the list returned. \<^verbatim>\<open>range\<close> of a number below 1 is empty.
\<close>

definition fetch_to_python ::
  "'t env \<Rightarrow> 't TGChannel \<Rightarrow> int \<Rightarrow> 't TGChannel \<times> (error + 't message list)" where
  "fetch_to_python E self pages_to_fetch =
     (if position self = Some ''0'' then (self, Inl FeedEnd)
      else case page_loop E (nat pages_to_fetch) self [] of
             (self', Inl e) \<Rightarrow> (self', Inl e)
           | (self', Inr all_bubbles) \<Rightarrow> (self', for_each (decode_bubble E) all_bubbles))"

section \<open>Observations on a call\<close>

text \<open>
  The documents a call received, in the order of the requests: the exchanges the call
  added to the transport object.
\<close>

definition pages_received :: "'t TGChannel \<Rightarrow> 't TGChannel \<Rightarrow> 't list" where
  "pages_received self self' =
     map snd (drop (length (session_object self)) (session_object self'))"

text \<open>A document whose pagination element is there and has no \<^verbatim>\<open>data-before\<close>.\<close>

definition leaves_loop :: "'t env \<Rightarrow> 't \<Rightarrow> bool" where
  "leaves_loop E soup =
     (getitem E (select_one E soup ''.tme_messages_more'') ''data-before'' = Inl KeyError)"

definition page_bubbles :: "'t env \<Rightarrow> 't list \<Rightarrow> 't list" where
  "page_bubbles E soups =
     concat (map (\<lambda>soup. rev (select E soup ''.tgme_widget_message_bubble''))
       (filter (\<lambda>soup. \<not> leaves_loop E soup) soups))"

text \<open>
  Chronological order of a list of messages, by their dates: the \<^verbatim>\<open>datetime\<close> values are
  ISO-8601 strings, compared character by character. Oldest-to-newest means that no
  message is followed, anywhere later in the list, by one with an earlier date.
\<close>

definition earlier :: "string \<Rightarrow> string \<Rightarrow> bool" where
  "earlier a b = lexordp (\<lambda>x y. (of_char x :: nat) < of_char y) a b"

definition oldest_to_newest :: "'t message list \<Rightarrow> bool" where
  "oldest_to_newest ms = sorted_wrt (\<lambda>a b. \<not> earlier (date b) (date a)) ms"

text \<open>The position of a content kind in the order Text, Photo, \<dots>, UnsupportedMedia.\<close>

fun kind_order :: "'t content \<Rightarrow> nat" where
  "kind_order (Text c) = 0"
| "kind_order (Photo u) = 1"
| "kind_order (Video u t d) = 2"
| "kind_order (Voice u d) = 3"
| "kind_order (Document u t s) = 4"
| "kind_order (Location u la lo) = 5"
| "kind_order (Poll q t os) = 6"
| "kind_order (UnsupportedMedia u) = 7"

text \<open>A required identity field is missing: the element, or the attribute read from it.\<close>

definition lacks_attribute :: "'t env \<Rightarrow> 't \<Rightarrow> field \<Rightarrow> string \<Rightarrow> bool" where
  "lacks_attribute E bubble f k =
     (case select_one E bubble (selector E f) of None \<Rightarrow> True | Some t \<Rightarrow> attrs E t k = None)"

section \<open>A small document tree, to run the function on\<close>

text \<open>
  Elements with one class, attributes, a string of their own and children. Selectors are
  class selectors; \<open>select\<close> returns the matching descendants in document order, the text
  of an element is its string followed by the texts of its children.
\<close>

datatype node = Node (node_class: string) (node_attrs: "(string \<times> string) list")
  (node_string: string) (node_children: "node list")

fun descendants :: "node \<Rightarrow> node list" where
  "descendants (Node c a s ks) = concat (map (\<lambda>k. k # descendants k) ks)"

fun node_text :: "node \<Rightarrow> string" where
  "node_text (Node c a s ks) = s @ concat (map node_text ks)"

definition node_select :: "node \<Rightarrow> string \<Rightarrow> node list" where
  "node_select t s = filter (\<lambda>d. CHR ''.'' # node_class d = s) (descendants t)"

fun class_selector :: "field \<Rightarrow> string" where
  "class_selector TEXT = ''.text''"
| "class_selector PHOTO = ''.photo''"
| "class_selector VIDEO = ''.video''"
| "class_selector VOICE = ''.voice''"
| "class_selector DOCUMENT = ''.document''"
| "class_selector LOCATION = ''.location''"
| "class_selector POLL = ''.poll''"
| "class_selector UNSUPPORTED_MEDIA = ''.unsupported''"
| "class_selector MESSAGE_AUTHOR = ''.author''"
| "class_selector MESSAGE_DATE = ''.date''"
| "class_selector MESSAGE_VIEWS = ''.views''"
| "class_selector MESSAGE_VOTERS = ''.voters''"
| "class_selector MESSAGE_NUMBER = ''.number''"
| "class_selector VIDEO_DURATION = ''.video_duration''"
| "class_selector VIDEO_THUMB = ''.video_thumb''"
| "class_selector VOICE_URL = ''.voice_url''"
| "class_selector VOICE_DURATION = ''.voice_duration''"
| "class_selector DOCUMENT_TITLE = ''.document_title''"
| "class_selector DOCUMENT_SIZE = ''.document_size''"
| "class_selector POLL_QUESTION = ''.poll_question''"
| "class_selector POLL_TYPE = ''.poll_type''"
| "class_selector POLL_OPTIONS = ''.poll_option''"
| "class_selector POLL_OPTION_PERCENT = ''.poll_option_percent''"
| "class_selector POLL_OPTION_VALUE = ''.poll_option_value''"
| "class_selector UNSUPPORTED_MEDIA_URL = ''.unsupported_url''"

text \<open>
  \<^verbatim>\<open>urlparse(url).query\<close> of the standard library, for URLs of ASCII characters without
  control characters or leading spaces. A scheme (a letter, then letters, digits, \<^verbatim>\<open>+\<close>,
  \<^verbatim>\<open>-\<close>, \<^verbatim>\<open>.\<close>, before the first colon) is cut off; after \<^verbatim>\<open>//\<close> the host part runs to the
  first of \<^verbatim>\<open>/\<close>, \<^verbatim>\<open>?\<close>, \<^verbatim>\<open>#\<close>, and a host part with only one of the two square brackets is
  refused with ValueError (a host in both brackets is taken as valid); of the rest, the
  query is what follows the first \<^verbatim>\<open>?\<close> before the first \<^verbatim>\<open>#\<close>.
\<close>

definition scheme_char :: "char \<Rightarrow> bool" where
  "scheme_char c =
     (let n = (of_char c :: nat)
      in (48 \<le> n \<and> n \<le> 57) \<or> (65 \<le> n \<and> n \<le> 90) \<or> (97 \<le> n \<and> n \<le> 122)
         \<or> c = CHR ''+'' \<or> c = CHR ''-'' \<or> c = CHR ''.'')"

definition ascii_letter :: "char \<Rightarrow> bool" where
  "ascii_letter c =
     (let n = (of_char c :: nat) in (65 \<le> n \<and> n \<le> 90) \<or> (97 \<le> n \<and> n \<le> 122))"

definition strip_scheme :: "string \<Rightarrow> string" where
  "strip_scheme url =
     (let pre = takeWhile (\<lambda>c. c \<noteq> CHR '':'') url
      in if length pre < length url \<and> pre \<noteq> [] \<and> ascii_letter (hd pre) \<and> list_all scheme_char pre
         then drop (Suc (length pre)) url else url)"

definition path_delimiter :: "char \<Rightarrow> bool" where
  "path_delimiter c = (c = CHR ''/'' \<or> c = CHR ''?'' \<or> c = CHR ''#'')"

definition urlparse_query :: "string \<Rightarrow> error + string" where
  "urlparse_query url =
     (let rest = strip_scheme url;
          netloc = (if take 2 rest = ''//'' then takeWhile (\<lambda>c. \<not> path_delimiter c) (drop 2 rest)
                    else []);
          rest' = (if take 2 rest = ''//'' then dropWhile (\<lambda>c. \<not> path_delimiter c) (drop 2 rest)
                   else rest)
      in if (CHR ''['' \<in> set netloc) \<noteq> (CHR '']'' \<in> set netloc) then Inl ValueError
         else Inr (drop 1 (dropWhile (\<lambda>c. c \<noteq> CHR ''?'') (takeWhile (\<lambda>c. c \<noteq> CHR ''#'') rest'))))"

text \<open>
  \<^verbatim>\<open>unquote\<close>: a \<^verbatim>\<open>%\<close> followed by two hexadecimal digits is the byte they denote,
  any other \<^verbatim>\<open>%\<close> stays. (Strings are byte strings here; the library then reads the
  bytes as UTF-8, which changes nothing where they are valid UTF-8.)
\<close>

definition hex_digit :: "char \<Rightarrow> nat option" where
  "hex_digit c =
     (let n = (of_char c :: nat)
      in if 48 \<le> n \<and> n \<le> 57 then Some (n - 48)
         else if 65 \<le> n \<and> n \<le> 70 then Some (n - 55)
         else if 97 \<le> n \<and> n \<le> 102 then Some (n - 87)
         else None)"

fun unquote :: "string \<Rightarrow> string" where
  "unquote (c # h # l # rest) =
     (if c = CHR ''%'' then
        (case (hex_digit h, hex_digit l) of
           (Some a, Some b) \<Rightarrow> char_of (16 * a + b) # unquote rest
         | _ \<Rightarrow> c # unquote (h # l # rest))
      else c # unquote (h # l # rest))"
| "unquote cs = cs"

text \<open>
  \<^verbatim>\<open>parse_qs\<close> with its default arguments: the query is cut at every \<^verbatim>\<open>&\<close>, each piece at
  its first \<^verbatim>\<open>=\<close>; pieces without \<^verbatim>\<open>=\<close> or with an empty value are left out; in name and
  value \<^verbatim>\<open>+\<close> becomes a space and then the escapes are resolved; the values of a name are
  listed in order.
\<close>

definition plus_to_space :: "string \<Rightarrow> string" where
  "plus_to_space cs = map (\<lambda>c. if c = CHR ''+'' then CHR '' '' else c) cs"

definition name_value :: "string \<Rightarrow> (string \<times> string) list" where
  "name_value nv =
     (let name = takeWhile (\<lambda>c. c \<noteq> CHR ''='') nv;
          val = drop (Suc (length name)) nv
      in if length name < length nv \<and> val \<noteq> []
         then [(unquote (plus_to_space name), unquote (plus_to_space val))] else [])"

definition parse_qs :: "string \<Rightarrow> string \<rightharpoonup> string list" where
  "parse_qs qs = (\<lambda>k.
     let pairs = concat (map name_value (split_on (CHR ''&'') qs));
         vs = map snd (filter (\<lambda>p. fst p = k) pairs)
     in if vs = [] then None else Some vs)"

text \<open>The environment over these trees, for a server that answers by the request alone.\<close>

definition node_env :: "(request \<Rightarrow> node) \<Rightarrow> node env" where
  "node_env server =
     \<lparr>select = node_select, attrs = (\<lambda>t. map_of (node_attrs t)), tag_text = node_text,
      http_get = (\<lambda>h r. server r), parse_query = (\<lambda>u. and_then (urlparse_query u) (\<lambda>qs. Inr (parse_qs qs))),
      selector = class_selector\<rparr>"

text \<open>The object as \<^verbatim>\<open>__init__\<close> leaves it.\<close>

definition new_channel :: "string \<Rightarrow> 't TGChannel" where
  "new_channel cid = \<lparr>channel_id = cid, position = None, session_object = []\<rparr>"

text \<open>Building blocks of the example documents.\<close>

definition metadata :: "string \<Rightarrow> node list" where
  "metadata n =
     [Node ''number'' [(''href'', ''https://t.me/chan/'' @ n)] [] [],
      Node ''author'' [] ''chan'' [],
      Node ''date'' [(''datetime'', ''2021-01-0'' @ n)] [] []]"

definition bubble_node :: "string \<Rightarrow> node list \<Rightarrow> node" where
  "bubble_node n body = Node ''tgme_widget_message_bubble'' [] [] (metadata n @ body)"

definition more_link :: "(string \<times> string) list \<Rightarrow> node" where
  "more_link as = Node ''tme_messages_more'' as [] []"

definition document_node :: "node list \<Rightarrow> node" where
  "document_node ks = Node ''html'' [] [] ks"

definition plain_message :: "string \<Rightarrow> node content list \<Rightarrow> node message" where
  "plain_message n cs =
     \<lparr>number = n, author = ''chan'', date = ''2021-01-0'' @ n, views = None, votes = None,
      contents = cs\<rparr>"

section \<open>Example channels\<close>

text \<open>
  A channel of two pages. The latest page holds the messages 5 and 6 and a pagination
  element with the cursor 5; the page before 5 holds the messages 3 and 4 and no
  pagination element. Any other cursor is answered with the latest page.
\<close>

definition latest_page :: node where
  "latest_page = document_node
     [more_link [(''data-before'', ''5'')],
      bubble_node ''5'' [Node ''text'' [] ''five'' []],
      bubble_node ''6'' [Node ''text'' [] ''six'' []]]"

definition last_page :: node where
  "last_page = document_node [bubble_node ''3'' [], bubble_node ''4'' []]"

definition channel_server :: "request \<Rightarrow> node" where
  "channel_server r =
     (case snd r of None \<Rightarrow> latest_page
      | Some b \<Rightarrow> if b = ''5'' then last_page else latest_page)"

text \<open>A channel whose every page holds the given bubbles and the cursor 1.\<close>

definition one_page_server :: "node list \<Rightarrow> request \<Rightarrow> node" where
  "one_page_server bubbles r = document_node (more_link [(''data-before'', ''1'')] # bubbles)"

definition location_node :: node where
  "location_node =
     Node ''location'' [(''href'', ''https://maps.google.com/maps?q=40.1,-73.9&z=15'')] [] []"

text \<open>The style value of a photo or thumbnail, the URL between quote characters.\<close>

definition background_image :: "string \<Rightarrow> string" where
  "background_image u = ''background-image:url('' @ [CHR 39] @ u @ [CHR 39] @ '')''"

definition photo_node :: "(string \<times> string) list \<Rightarrow> node" where
  "photo_node as = Node ''photo'' as [] []"

text \<open>A bubble with one item of every kind but Voice, the nodes in the reverse of the order of extraction.\<close>

definition mixed_bubble :: node where
  "mixed_bubble = bubble_node ''7''
     [Node ''unsupported'' [] [] [Node ''unsupported_url'' [(''href'', ''https://t.me/chan/7'')] [] []],
      Node ''poll'' [] []
        [Node ''poll_question'' [] ''Tea?'' [], Node ''poll_type'' [] ''Anonymous poll'' [],
         Node ''poll_option'' [] []
           [Node ''poll_option_percent'' [] ''60%'' [], Node ''poll_option_value'' [] ''yes'' []]],
      location_node,
      Node ''document'' [(''href'', ''https://t.me/chan/7?single'')] []
        [Node ''document_title'' [] ''a.pdf'' [], Node ''document_size'' [] ''1 KB'' []],
      Node ''video'' [(''href'', ''https://t.me/chan/7?v'')] []
        [Node ''video_thumb'' [(''style'', background_image ''http://x/t.jpg'')] [] [],
         Node ''video_duration'' [] ''0:10'' []],
      photo_node [(''style'', background_image ''http://x/y.jpg'')],
      Node ''text'' [] ''hello'' []]"

definition mixed_contents :: "node content list" where
  "mixed_contents =
     [Text ''hello'', Photo ''http://x/y.jpg'',
      Video ''https://t.me/chan/7?v'' ''http://x/t.jpg'' ''0:10'',
      Document ''https://t.me/chan/7?single''
        [Node ''document_title'' [] ''a.pdf'' []] [Node ''document_size'' [] ''1 KB'' []],
      Location ''https://www.openstreetmap.org/?lat=40.1&lon=-73.9&zoom=15&layers=M''
        ''40.1'' ''-73.9'',
      Poll ''Tea?'' ''Anonymous poll'' [\<lparr>percent = ''60%'', option_value = ''yes''\<rparr>],
      UnsupportedMedia ''https://t.me/chan/7'']"

text \<open>Two unsupported-media nodes: the link element of the first has no \<^verbatim>\<open>href\<close>.\<close>

definition unlinked_media :: node where
  "unlinked_media = Node ''unsupported'' [] [] [Node ''unsupported_url'' [] ''Media is too big'' []]"

definition linked_media :: node where
  "linked_media =
     Node ''unsupported'' [] [] [Node ''unsupported_url'' [(''href'', ''https://t.me/chan/8'')] [] []]"

definition unsupported_bubble :: node where
  "unsupported_bubble = bubble_node ''8'' [unlinked_media, linked_media]"

text \<open>A bubble without author element.\<close>

definition anonymous_bubble :: node where
  "anonymous_bubble = Node ''tgme_widget_message_bubble'' [] []
     [Node ''number'' [(''href'', ''https://t.me/chan/6'')] [] [],
      Node ''date'' [(''datetime'', ''2021-01-06'')] [] []]"

text \<open>A bubble with two photo nodes, the first without \<^verbatim>\<open>style\<close>.\<close>

definition two_photos_bubble :: node where
  "two_photos_bubble = bubble_node ''5''
     [photo_node [], photo_node [(''style'', background_image ''http://x/y.jpg'')]]"

text \<open>A bubble with one voice node, with its audio source and its duration.\<close>

definition voice_bubble :: node where
  "voice_bubble = bubble_node ''5''
     [Node ''voice'' [] []
        [Node ''voice_url'' [(''src'', ''https://cdn.t.me/voice.ogg'')] [] [],
         Node ''voice_duration'' [] ''0:07'' []]]"

text \<open>A channel whose older page has a pagination element without \<^verbatim>\<open>data-before\<close>.\<close>

definition cursorless_page :: node where
  "cursorless_page = document_node
     [more_link [(''data-after'', ''4'')], bubble_node ''3'' [], bubble_node ''4'' []]"

definition cursorless_server :: "request \<Rightarrow> node" where
  "cursorless_server r = (case snd r of None \<Rightarrow> latest_page | Some b \<Rightarrow> cursorless_page)"

text \<open>Channels of one page each, for the bubbles above.\<close>

definition anonymous_server :: "request \<Rightarrow> node" where
  "anonymous_server =
     one_page_server [anonymous_bubble, bubble_node ''5'' [Node ''text'' [] ''five'' []]]"

definition photo_server :: "request \<Rightarrow> node" where
  "photo_server = one_page_server [two_photos_bubble]"

definition voice_server :: "request \<Rightarrow> node" where
  "voice_server = one_page_server [voice_bubble]"

text \<open>
  The channel of two pages again, with the bubbles of each page in the other document
  order, the newest first.
\<close>

definition latest_page_newest_first :: node where
  "latest_page_newest_first = document_node
     [more_link [(''data-before'', ''5'')],
      bubble_node ''6'' [Node ''text'' [] ''six'' []],
      bubble_node ''5'' [Node ''text'' [] ''five'' []]]"

definition last_page_newest_first :: node where
  "last_page_newest_first = document_node [bubble_node ''4'' [], bubble_node ''3'' []]"

definition newest_first_server :: "request \<Rightarrow> node" where
  "newest_first_server r =
     (case snd r of None \<Rightarrow> latest_page_newest_first
      | Some b \<Rightarrow> if b = ''5'' then last_page_newest_first else latest_page_newest_first)"



definition zoomless_location_node :: node where
  "zoomless_location_node =
     Node ''location'' [(''href'', ''https://maps.google.com/maps?q=1.5,2.5'')] [] []"

text \<open>An unsupported-media node without link element, in a bubble, on a page.\<close>

definition bare_media :: node where
  "bare_media = Node ''unsupported'' [] ''Media is too big'' []"

definition bare_media_bubble :: node where
  "bare_media_bubble = bubble_node ''8'' [bare_media, linked_media]"

definition bare_media_server :: "request \<Rightarrow> node" where
  "bare_media_server = one_page_server [bare_media_bubble]"

section \<open>Auxiliary facts\<close>

lemma and_then_Inr: "and_then r f = Inr y \<longleftrightarrow> (\<exists>x. r = Inr x \<and> f x = Inr y)"
  by (cases r) (simp_all add: and_then_def)

lemma for_each_append:
  "for_each body (xs @ ys) =
     and_then (for_each body xs) (\<lambda>a. and_then (for_each body ys) (\<lambda>b. Inr (a @ b)))"
proof (induction xs)
  case Nil
  show ?case by (cases "for_each body ys") (simp_all add: and_then_def)
next
  case (Cons x xs)
  show ?case
    by (simp add: Cons.IH and_then_def split: sum.splits)
qed

lemma for_each_all:
  assumes "for_each body xs = Inr zs"
    and "\<And>x ys. x \<in> set xs \<Longrightarrow> body x = Inr ys \<Longrightarrow> \<forall>y\<in>set ys. P y"
  shows "\<forall>z\<in>set zs. P z"
  using assms
proof (induction xs arbitrary: zs)
  case Nil
  then show ?case by simp
next
  case (Cons x xs)
  from Cons.prems(1) obtain ys ws where
    *: "body x = Inr ys" "for_each body xs = Inr ws" "zs = ys @ ws"
    by (auto simp: and_then_Inr)
  have "\<forall>y\<in>set ys. P y" using Cons.prems(2)[of x ys] * by simp
  moreover have "\<forall>z\<in>set ws. P z"
  proof (rule Cons.IH[OF *(2)])
    fix x' ys' assume "x' \<in> set xs" "body x' = Inr ys'"
    then show "\<forall>y\<in>set ys'. P y" using Cons.prems(2)[of x' ys'] by simp
  qed
  ultimately show ?case using * by auto
qed

lemma for_each_fails:
  "x \<in> set xs \<Longrightarrow> body x = Inl e \<Longrightarrow> \<exists>e'. for_each body xs = Inl e'"
proof (induction xs)
  case Nil
  then show ?case by simp
next
  case (Cons a xs)
  show ?case
  proof (cases "body a")
    case (Inl e1)
    then show ?thesis by (simp add: and_then_def)
  next
    case (Inr ys)
    with Cons.prems have "x \<in> set xs" by auto
    from Cons.IH[OF this Cons.prems(2)] obtain e' where "for_each body xs = Inl e'" ..
    with Inr show ?thesis by (simp add: and_then_def)
  qed
qed

lemma page_loop_returns: "\<exists>self' bs. page_loop E n self acc = (self', Inr bs)"
proof (induction n arbitrary: self acc)
  case 0
  show ?case by simp
next
  case (Suc n)
  show ?case
    by (auto simp: Let_def Suc.IH getitem_def tag_getitem_def split: sum.splits error.splits option.splits)
qed


lemma getitem_errors: "getitem E x k = Inl e \<Longrightarrow> e = TypeError \<or> e = KeyError"
  by (auto simp: getitem_def tag_getitem_def split: option.splits)

lemma page_loop_trace:
  "page_loop E n self acc = (self', Inr bs) \<Longrightarrow>
     \<exists>new. session_object self' = session_object self @ new
          \<and> bs = acc @ page_bubbles E (map snd new)"
proof (induction n arbitrary: self acc)
  case 0
  then show ?case by (simp add: page_bubbles_def)
next
  case (Suc n)
  let ?url = "TELEGRAM_URL @ ''/s/'' @ channel_id self"
  let ?soup = "http_get E (session_object self) (?url, position self)"
  let ?x = "((?url, position self), ?soup)"
  let ?self1 = "self\<lparr>session_object := session_object self @ [?x]\<rparr>"
  let ?bubbles = "select E ?soup ''.tgme_widget_message_bubble''"
  let ?r = "getitem E (select_one E ?soup ''.tme_messages_more'') ''data-before''"
  have step: "\<exists>new. session_object self' = session_object self @ new
          \<and> bs = acc @ page_bubbles E (map snd new)"
    if run: "page_loop E n (?self1\<lparr>position := Some p\<rparr>) (acc @ rev ?bubbles) = (self', Inr bs)"
      and stay: "\<not> leaves_loop E ?soup" for p
  proof -
    from Suc.IH[OF run] obtain new where
      n: "session_object self' = (session_object self @ [?x]) @ new"
         "bs = (acc @ rev ?bubbles) @ page_bubbles E (map snd new)"
      by auto
    from stay have "page_bubbles E (map snd (?x # new)) = rev ?bubbles @ page_bubbles E (map snd new)"
      by (simp add: page_bubbles_def)
    with n show ?thesis by (intro exI[of _ "?x # new"]) simp
  qed
  show ?case
  proof (cases ?r)
    case (Inr p)
    with Suc.prems have "page_loop E n (?self1\<lparr>position := Some p\<rparr>) (acc @ rev ?bubbles) = (self', Inr bs)"
      by (simp add: Let_def)
    moreover have "\<not> leaves_loop E ?soup" using Inr by (simp add: leaves_loop_def)
    ultimately show ?thesis by (rule step)
  next
    case (Inl e)
    then consider "e = TypeError" | "e = KeyError" using getitem_errors by blast
    then show ?thesis
    proof cases
      case 1
      with Inl Suc.prems have "page_loop E n (?self1\<lparr>position := Some ''0''\<rparr>) (acc @ rev ?bubbles) = (self', Inr bs)"
        by (simp add: Let_def)
      moreover have "\<not> leaves_loop E ?soup" using Inl 1 by (simp add: leaves_loop_def)
      ultimately show ?thesis by (rule step)
    next
      case 2
      with Inl Suc.prems have s: "self' = ?self1\<lparr>position := Some ''0''\<rparr>" "bs = acc"
        by (simp_all add: Let_def)
      have "leaves_loop E ?soup" using Inl 2 by (simp add: leaves_loop_def)
      then have "page_bubbles E (map snd [?x]) = []"
        by (simp add: page_bubbles_def)
      with s show ?thesis by (intro exI[of _ "[?x]"]) simp
    qed
  qed
qed

lemma page_loop_bubbles:
  "page_loop E n self [] = (self', Inr bs) \<Longrightarrow> bs = page_bubbles E (pages_received self self')"
  by (drule page_loop_trace) (auto simp: pages_received_def)

lemma fetch_unfold:
  assumes "position self \<noteq> Some ''0''"
  shows "fetch_to_python E self n =
           (fst (fetch_to_python E self n),
            for_each (decode_bubble E)
              (page_bubbles E (pages_received self (fst (fetch_to_python E self n)))))"
proof -
  obtain self' bs where pl: "page_loop E (nat n) self [] = (self', Inr bs)"
    using page_loop_returns by blast
  then have bs: "bs = page_bubbles E (pages_received self self')" by (rule page_loop_bubbles)
  from pl assms have "fetch_to_python E self n = (self', for_each (decode_bubble E) bs)"
    by (simp add: fetch_to_python_def)
  with bs show ?thesis by simp
qed

lemma fetch_fails:
  assumes "position self \<noteq> Some ''0''"
    and "bubble \<in> set (page_bubbles E (pages_received self (fst (fetch_to_python E self n))))"
    and "decode_bubble E bubble = Inl e"
  shows "\<exists>e'. snd (fetch_to_python E self n) = Inl e'"
proof -
  from for_each_fails[of bubble _ "decode_bubble E" e, OF assms(2,3)] obtain e' where
    "for_each (decode_bubble E)
       (page_bubbles E (pages_received self (fst (fetch_to_python E self n)))) = Inl e'" ..
  with fetch_unfold[OF assms(1), of E n] have "snd (fetch_to_python E self n) = Inl e'"
    by (metis snd_conv)
  then show ?thesis ..
qed

lemma decode_bubble_single: "decode_bubble E b = Inr ms \<Longrightarrow> \<exists>m. ms = [m]"
  by (auto simp: decode_bubble_def and_then_Inr)

lemma decode_bubble_contents:
  "decode_bubble E b = Inr [m] \<Longrightarrow> get_contents E b = Inr (contents m)"
  by (auto simp: decode_bubble_def and_then_Inr)

lemma decode_bubble_metadata:
  "decode_bubble E b = Inr ms \<Longrightarrow>
     (\<exists>h. getitem E (select_one E b (selector E MESSAGE_NUMBER)) ''href'' = Inr h)
   \<and> (\<exists>a. getattr_text E (select_one E b (selector E MESSAGE_AUTHOR)) = Inr a)
   \<and> (\<exists>d. getitem E (select_one E b (selector E MESSAGE_DATE)) ''datetime'' = Inr d)"
  by (auto simp: decode_bubble_def and_then_Inr)

lemma get_contents_parts:
  "get_contents E b = Inr cs \<Longrightarrow>
     \<exists>c1 c2 c3 c4 c5 c6 c7 c8.
       get_texts E b = Inr c1 \<and> get_photos E b = Inr c2 \<and> get_videos E b = Inr c3
     \<and> get_voices E b = Inr c4 \<and> get_documents E b = Inr c5 \<and> get_locations E b = Inr c6
     \<and> get_polls E b = Inr c7 \<and> get_unsupported_medias E b = Inr c8
     \<and> cs = c1 @ c2 @ c3 @ c4 @ c5 @ c6 @ c7 @ c8"
  unfolding get_contents_def and_then_Inr by blast

lemma decode_fails_if:
  "get_contents E b = Inl e \<Longrightarrow> \<exists>e'. decode_bubble E b = Inl e'"
  by (simp add: decode_bubble_def and_then_def split: sum.splits)

lemma get_contents_fails_if:
  "get_photos E b = Inl e \<Longrightarrow> \<exists>e'. get_contents E b = Inl e'"
  by (simp add: get_contents_def and_then_def split: sum.splits)

lemma for_each_decode:
  "for_each (decode_bubble E) bs = Inr ms \<Longrightarrow>
     list_all2 (\<lambda>b m. decode_bubble E b = Inr [m]) bs ms"
proof (induction bs arbitrary: ms)
  case Nil
  then show ?case by simp
next
  case (Cons b bs)
  then obtain ys zs where
    *: "decode_bubble E b = Inr ys" "for_each (decode_bubble E) bs = Inr zs" "ms = ys @ zs"
    by (auto simp: and_then_Inr)
  from decode_bubble_single[OF *(1)] obtain m where "ys = [m]" by blast
  with * Cons.IH[OF *(2)] show ?case by simp
qed

lemma sorted_constant: "\<forall>x\<in>set xs. f x = (k::nat) \<Longrightarrow> sorted (map f xs)"
  by (induction xs) auto

lemma block_sorted:
  fixes f :: "'a \<Rightarrow> nat"
  assumes "\<forall>x\<in>set xs. f x = k" "sorted (map f ys)" "\<forall>y\<in>set ys. k < f y"
  shows "sorted (map f (xs @ ys))"
proof -
  have "f x \<le> f y" if "x \<in> set xs" "y \<in> set ys" for x y
  proof -
    from that assms(1) have "f x = k" by blast
    moreover from that assms(3) have "k < f y" by blast
    ultimately show ?thesis by simp
  qed
  moreover have "sorted (map f xs)" using assms(1) by (rule sorted_constant)
  ultimately show ?thesis using assms(2) by (simp add: sorted_append)
qed

lemma block_bound:
  fixes f :: "'a \<Rightarrow> nat"
  assumes "\<forall>x\<in>set xs. f x = k" "\<forall>y\<in>set ys. k < f y" "j < k"
  shows "\<forall>y\<in>set (xs @ ys). j < f y"
proof
  fix y assume "y \<in> set (xs @ ys)"
  then consider "y \<in> set xs" | "y \<in> set ys" by auto
  then show "j < f y"
  proof cases
    case 1
    with assms(1) have "f y = k" by blast
    with assms(3) show ?thesis by simp
  next
    case 2
    with assms(2) have "k < f y" by blast
    with assms(3) show ?thesis by simp
  qed
qed

lemma get_texts_kind: "get_texts E b = Inr c \<Longrightarrow> \<forall>x\<in>set c. kind_order x = 0"
  unfolding get_texts_def by (erule for_each_all) auto

lemma get_photos_kind: "get_photos E b = Inr c \<Longrightarrow> \<forall>x\<in>set c. kind_order x = 1"
  unfolding get_photos_def by (erule for_each_all) (auto simp: photo_item_def and_then_Inr)

lemma get_videos_kind: "get_videos E b = Inr c \<Longrightarrow> \<forall>x\<in>set c. kind_order x = 2"
  unfolding get_videos_def by (erule for_each_all) (auto simp: video_item_def and_then_Inr)

lemma get_voices_kind: "get_voices E b = Inr c \<Longrightarrow> \<forall>x\<in>set c. kind_order x = 3"
  unfolding get_voices_def by (erule for_each_all) (auto simp: voice_item_def and_then_Inr)

lemma get_documents_kind: "get_documents E b = Inr c \<Longrightarrow> \<forall>x\<in>set c. kind_order x = 4"
  unfolding get_documents_def by (erule for_each_all) (auto simp: document_item_def and_then_Inr)

lemma get_locations_kind: "get_locations E b = Inr c \<Longrightarrow> \<forall>x\<in>set c. kind_order x = 5"
  unfolding get_locations_def by (erule for_each_all) (auto simp: location_item_def and_then_Inr)

lemma get_polls_kind: "get_polls E b = Inr c \<Longrightarrow> \<forall>x\<in>set c. kind_order x = 6"
  unfolding get_polls_def by (erule for_each_all) (auto simp: poll_item_def and_then_Inr)

lemma get_unsupported_medias_kind:
  "get_unsupported_medias E b = Inr c \<Longrightarrow> \<forall>x\<in>set c. kind_order x = 7"
  unfolding get_unsupported_medias_def
  by (erule for_each_all)
     (auto simp: unsupported_media_item_def split: sum.splits error.splits)

lemma sorted_kinds:
  assumes "\<forall>x\<in>set c1. kind_order x = 0" "\<forall>x\<in>set c2. kind_order x = 1"
    "\<forall>x\<in>set c3. kind_order x = 2" "\<forall>x\<in>set c4. kind_order x = 3"
    "\<forall>x\<in>set c5. kind_order x = 4" "\<forall>x\<in>set c6. kind_order x = 5"
    "\<forall>x\<in>set c7. kind_order x = 6" "\<forall>x\<in>set c8. kind_order x = 7"
  shows "sorted (map kind_order (c1 @ c2 @ c3 @ c4 @ c5 @ c6 @ c7 @ c8))"
proof -
  have s8: "sorted (map kind_order c8)" using assms(8) by (rule sorted_constant)
  have b8: "\<forall>y\<in>set c8. 6 < kind_order y" using assms(8) by simp
  note s7 = block_sorted[OF assms(7) s8 b8]
  have b7: "\<forall>y\<in>set (c7 @ c8). 5 < kind_order y"
    by (rule block_bound[OF assms(7) b8]) simp
  note s6 = block_sorted[OF assms(6) s7 b7]
  have b6: "\<forall>y\<in>set (c6 @ c7 @ c8). 4 < kind_order y"
    by (rule block_bound[OF assms(6) b7]) simp
  note s5 = block_sorted[OF assms(5) s6 b6]
  have b5: "\<forall>y\<in>set (c5 @ c6 @ c7 @ c8). 3 < kind_order y"
    by (rule block_bound[OF assms(5) b6]) simp
  note s4 = block_sorted[OF assms(4) s5 b5]
  have b4: "\<forall>y\<in>set (c4 @ c5 @ c6 @ c7 @ c8). 2 < kind_order y"
    by (rule block_bound[OF assms(4) b5]) simp
  note s3 = block_sorted[OF assms(3) s4 b4]
  have b3: "\<forall>y\<in>set (c3 @ c4 @ c5 @ c6 @ c7 @ c8). 1 < kind_order y"
    by (rule block_bound[OF assms(3) b4]) simp
  note s2 = block_sorted[OF assms(2) s3 b3]
  have b2: "\<forall>y\<in>set (c2 @ c3 @ c4 @ c5 @ c6 @ c7 @ c8). 0 < kind_order y"
    by (rule block_bound[OF assms(2) b3]) simp
  show ?thesis by (rule block_sorted[OF assms(1) s2 b2])
qed

lemma get_contents_sorted: "get_contents E b = Inr cs \<Longrightarrow> sorted (map kind_order cs)"
  apply (drule get_contents_parts)
  apply (elim exE conjE)
  apply hypsubst
  apply (rule sorted_kinds)
         apply (erule get_texts_kind)
        apply (erule get_photos_kind)
       apply (erule get_videos_kind)
      apply (erule get_voices_kind)
     apply (erule get_documents_kind)
    apply (erule get_locations_kind)
   apply (erule get_polls_kind)
  apply (erule get_unsupported_medias_kind)
  done

lemma and_then_return: "and_then r (\<lambda>x. Inr x) = r"
  by (cases r) (simp_all add: and_then_def)

lemma lacks_attribute_getitem:
  "lacks_attribute E b f k \<Longrightarrow> \<exists>e. getitem E (select_one E b (selector E f)) k = Inl e"
  by (auto simp: lacks_attribute_def getitem_def tag_getitem_def split: option.splits)

lemma decode_needs_metadata:
  assumes "lacks_attribute E b MESSAGE_NUMBER ''href''
         \<or> select_one E b (selector E MESSAGE_AUTHOR) = None
         \<or> lacks_attribute E b MESSAGE_DATE ''datetime''"
  shows "\<exists>e. decode_bubble E b = Inl e"
proof (cases "decode_bubble E b")
  case (Inl e)
  then show ?thesis by blast
next
  case (Inr ms)
  from decode_bubble_metadata[OF Inr] obtain h a d where
    m: "getitem E (select_one E b (selector E MESSAGE_NUMBER)) ''href'' = Inr h"
       "getattr_text E (select_one E b (selector E MESSAGE_AUTHOR)) = Inr a"
       "getitem E (select_one E b (selector E MESSAGE_DATE)) ''datetime'' = Inr d"
    by blast
  from assms have False
  proof (elim disjE)
    assume 1: "lacks_attribute E b MESSAGE_NUMBER ''href''"
    from lacks_attribute_getitem[OF 1] m(1) show False by simp
  next
    assume 2: "select_one E b (selector E MESSAGE_AUTHOR) = None"
    with m(2) show False by (simp add: getattr_text_def)
  next
    assume 3: "lacks_attribute E b MESSAGE_DATE ''datetime''"
    from lacks_attribute_getitem[OF 3] m(3) show False by simp
  qed
  then show ?thesis ..
qed

lemma photo_without_style: "attrs E photo ''style'' = None \<Longrightarrow> photo_item E photo = Inl KeyError"
  by (simp add: photo_item_def tag_getitem_def and_then_def)

lemma voice_node_raises:
  "select E bubble (selector E VOICE) \<noteq> [] \<Longrightarrow> get_voices E bubble = Inl TypeError"
  by (cases "select E bubble (selector E VOICE)")
     (simp_all add: get_voices_def voice_item_def resultset_getitem_def and_then_def)

lemma page_without_cursor_is_dropped:
  "snd (fetch_to_python (node_env cursorless_server) (new_channel ''chan'') 2)
     = Inr [plain_message ''6'' [Text ''six''], plain_message ''5'' [Text ''five'']]
   \<and> pages_received (new_channel ''chan'')
        (fst (fetch_to_python (node_env cursorless_server) (new_channel ''chan'') 2))
     = [latest_page, cursorless_page]
   \<and> position (fst (fetch_to_python (node_env cursorless_server) (new_channel ''chan'') 2))
     = Some ''0''"
  by code_simp





text \<open>
  The handler of the unsupported-media loop at work: a node whose link element is there and
  has no \<^verbatim>\<open>href\<close> appends nothing and raises nothing, and the items of the bubble are
  those of the other nodes.
\<close>

lemma unsupported_without_href_is_skipped:
  assumes "select E bubble (selector E UNSUPPORTED_MEDIA) = before @ media # after"
    and "select_one E media (selector E UNSUPPORTED_MEDIA_URL) = Some link"
    and "attrs E link ''href'' = None"
  shows "unsupported_media_item E media = Inr []
       \<and> get_unsupported_medias E bubble
           = for_each (unsupported_media_item E) (before @ after)"
proof
  show item: "unsupported_media_item E media = Inr []"
    using assms(2,3) by (simp add: unsupported_media_item_def getitem_def tag_getitem_def)
  have "for_each (unsupported_media_item E) (media # after)
          = for_each (unsupported_media_item E) after"
    by (simp add: item and_then_def and_then_return split: sum.splits)
  then show "get_unsupported_medias E bubble
           = for_each (unsupported_media_item E) (before @ after)"
    by (simp only: get_unsupported_medias_def assms(1) for_each_append)
qed

lemma unsupported_without_href_example:
  "select (node_env channel_server) unsupported_bubble
       (selector (node_env channel_server) UNSUPPORTED_MEDIA)
     = [] @ unlinked_media # [linked_media]
   \<and> select_one (node_env channel_server) unlinked_media
       (selector (node_env channel_server) UNSUPPORTED_MEDIA_URL)
     = Some (Node ''unsupported_url'' [] ''Media is too big'' [])
   \<and> attrs (node_env channel_server) (Node ''unsupported_url'' [] ''Media is too big'' []) ''href''
     = None
   \<and> unsupported_media_item (node_env channel_server) unlinked_media = Inr []
   \<and> get_unsupported_medias (node_env channel_server) unsupported_bubble
     = for_each (unsupported_media_item (node_env channel_server)) ([] @ [linked_media])
   \<and> get_unsupported_medias (node_env channel_server) unsupported_bubble
     = Inr [UnsupportedMedia ''https://t.me/chan/8'']"
proof -
  have h1: "select (node_env channel_server) unsupported_bubble
       (selector (node_env channel_server) UNSUPPORTED_MEDIA)
     = [] @ unlinked_media # [linked_media]"
    by code_simp
  have h2: "select_one (node_env channel_server) unlinked_media
       (selector (node_env channel_server) UNSUPPORTED_MEDIA_URL)
     = Some (Node ''unsupported_url'' [] ''Media is too big'' [])"
    by code_simp
  have h3: "attrs (node_env channel_server)
       (Node ''unsupported_url'' [] ''Media is too big'' []) ''href'' = None"
    by code_simp
  have v: "get_unsupported_medias (node_env channel_server) unsupported_bubble
     = Inr [UnsupportedMedia ''https://t.me/chan/8'']"
    by code_simp
  from unsupported_without_href_is_skipped[OF h1 h2 h3] h1 h2 h3 v show ?thesis by blast
qed

section \<open>The end of the feed\<close>

text \<open>
  C1. On an object whose cursor is the end sentinel \<^verbatim>\<open>"0"\<close>, \<^verbatim>\<open>fetch_to_python\<close> raises
  \<^verbatim>\<open>FeedEnd\<close> at once, for any number of pages: no request is made and no message is
  returned, and the object is left as it was, so every later call does the same.
\<close>

theorem fetch_after_end_raises_FeedEnd:
  "position self = Some ''0'' \<Longrightarrow> fetch_to_python E self n = (self, Inl FeedEnd)"
  by (simp add: fetch_to_python_def)

theorem fetch_after_end_raises_FeedEnd_witness:
  "position (\<lparr>channel_id = ''chan'', position = Some ''0'', session_object = []\<rparr> :: node TGChannel)
     = Some ''0''
   \<and> fetch_to_python (node_env channel_server)
       \<lparr>channel_id = ''chan'', position = Some ''0'', session_object = []\<rparr> 3
     = (\<lparr>channel_id = ''chan'', position = Some ''0'', session_object = []\<rparr>, Inl FeedEnd)"
  using fetch_after_end_raises_FeedEnd
    [of "\<lparr>channel_id = ''chan'', position = Some ''0'', session_object = []\<rparr>"
        "node_env channel_server" 3]
  by simp

text \<open>
  C10. On an object whose cursor is not the end sentinel, \<^verbatim>\<open>fetch_to_python\<close> with
  \<^verbatim>\<open>pages_to_fetch = 0\<close> returns the empty list and leaves the object as it was: no request
  is added to the transport object and the cursor is unchanged.
\<close>

theorem fetch_zero_pages:
  "position self \<noteq> Some ''0'' \<Longrightarrow> fetch_to_python E self 0 = (self, Inr [])"
  by (simp add: fetch_to_python_def)

theorem fetch_zero_pages_witness:
  "position (new_channel ''chan'' :: node TGChannel) \<noteq> Some ''0''
   \<and> fetch_to_python (node_env channel_server) (new_channel ''chan'') 0
     = (new_channel ''chan'', Inr [])"
proof -
  have h: "position (new_channel ''chan'' :: node TGChannel) \<noteq> Some ''0''"
    by (simp add: new_channel_def)
  from fetch_zero_pages[OF h, of "node_env channel_server"] h show ?thesis by simp
qed

section \<open>The order of the messages\<close>

text \<open>
  C4, as stated, fails. Two pages of the channel of two pages are fetched. With the
  bubbles of a page in document order from older to newer, the call returns the messages
  6, 5, 4, 3; with the other document order it returns 5, 6, 3, 4: neither list is
  oldest-to-newest. And on the channel whose second page has a pagination element without
  \<^verbatim>\<open>data-before\<close>, both pages are received, each with two bubbles, and the call returns
  the messages of the first page only.
\<close>

theorem fetch_order_counterexample:
  "snd (fetch_to_python (node_env channel_server) (new_channel ''chan'') 2)
     = Inr [plain_message ''6'' [Text ''six''], plain_message ''5'' [Text ''five''],
            plain_message ''4'' [], plain_message ''3'' []]
   \<and> \<not> oldest_to_newest
        [plain_message ''6'' [Text ''six''], plain_message ''5'' [Text ''five''],
         plain_message ''4'' [], plain_message ''3'' [] :: node message]
   \<and> snd (fetch_to_python (node_env newest_first_server) (new_channel ''chan'') 2)
     = Inr [plain_message ''5'' [Text ''five''], plain_message ''6'' [Text ''six''],
            plain_message ''3'' [], plain_message ''4'' []]
   \<and> \<not> oldest_to_newest
        [plain_message ''5'' [Text ''five''], plain_message ''6'' [Text ''six''],
         plain_message ''3'' [], plain_message ''4'' [] :: node message]
   \<and> pages_received (new_channel ''chan'')
        (fst (fetch_to_python (node_env cursorless_server) (new_channel ''chan'') 2))
     = [latest_page, cursorless_page]
   \<and> map (\<lambda>soup. length (select (node_env cursorless_server) soup ''.tgme_widget_message_bubble''))
        [latest_page, cursorless_page] = [2, 2]
   \<and> snd (fetch_to_python (node_env cursorless_server) (new_channel ''chan'') 2)
     = Inr [plain_message ''6'' [Text ''six''], plain_message ''5'' [Text ''five'']]"
  by code_simp

text \<open>
  C4, amended. When \<^verbatim>\<open>fetch_to_python\<close> returns and no page it received has a pagination
  element without \<^verbatim>\<open>data-before\<close>, the returned list is, message by message, the decoding
  of this list of bubbles: the pages the call received, in the order they were requested,
  each page's bubbles reversed from their document order, and the pages' reversed lists
  concatenated. No chronological order is stated.
\<close>

theorem fetch_reverses_pages_in_fetch_order:
  assumes "fetch_to_python E self n = (self', Inr msgs)"
    and "\<forall>soup\<in>set (pages_received self self'). \<not> leaves_loop E soup"
  shows "list_all2 (\<lambda>b m. decode_bubble E b = Inr [m])
           (concat (map (\<lambda>soup. rev (select E soup ''.tgme_widget_message_bubble''))
              (pages_received self self')))
           msgs"
proof -
  from assms(1) have nz: "position self \<noteq> Some ''0''"
    by (auto simp: fetch_to_python_def)
  from fetch_unfold[OF nz, of E n] assms(1)
  have "for_each (decode_bubble E) (page_bubbles E (pages_received self self')) = Inr msgs"
    by simp
  moreover from assms(2)
  have "filter (\<lambda>soup. \<not> leaves_loop E soup) (pages_received self self')
          = pages_received self self'"
    by (simp add: filter_id_conv)
  ultimately
  have "for_each (decode_bubble E)
          (concat (map (\<lambda>soup. rev (select E soup ''.tgme_widget_message_bubble''))
             (pages_received self self'))) = Inr msgs"
    by (simp add: page_bubbles_def)
  then show ?thesis by (rule for_each_decode)
qed

theorem fetch_reverses_pages_in_fetch_order_witness:
  "fetch_to_python (node_env channel_server) (new_channel ''chan'') 2
     = (fst (fetch_to_python (node_env channel_server) (new_channel ''chan'') 2),
        Inr [plain_message ''6'' [Text ''six''], plain_message ''5'' [Text ''five''],
             plain_message ''4'' [], plain_message ''3'' []])
   \<and> pages_received (new_channel ''chan'')
       (fst (fetch_to_python (node_env channel_server) (new_channel ''chan'') 2))
     = [latest_page, last_page]
   \<and> \<not> leaves_loop (node_env channel_server) latest_page
   \<and> \<not> leaves_loop (node_env channel_server) last_page
   \<and> list_all2 (\<lambda>b m. decode_bubble (node_env channel_server) b = Inr [m])
       (concat (map (\<lambda>soup. rev (select (node_env channel_server) soup ''.tgme_widget_message_bubble''))
          (pages_received (new_channel ''chan'')
             (fst (fetch_to_python (node_env channel_server) (new_channel ''chan'') 2)))))
       [plain_message ''6'' [Text ''six''], plain_message ''5'' [Text ''five''],
        plain_message ''4'' [], plain_message ''3'' []]"
proof -
  have h: "fetch_to_python (node_env channel_server) (new_channel ''chan'') 2
     = (fst (fetch_to_python (node_env channel_server) (new_channel ''chan'') 2),
        Inr [plain_message ''6'' [Text ''six''], plain_message ''5'' [Text ''five''],
             plain_message ''4'' [], plain_message ''3'' []])"
    by code_simp
  have p: "pages_received (new_channel ''chan'')
       (fst (fetch_to_python (node_env channel_server) (new_channel ''chan'') 2))
     = [latest_page, last_page]"
    by code_simp
  have k1: "\<not> leaves_loop (node_env channel_server) latest_page"
    by code_simp
  have k2: "\<not> leaves_loop (node_env channel_server) last_page"
    by code_simp
  have k: "\<forall>soup\<in>set (pages_received (new_channel ''chan'')
                (fst (fetch_to_python (node_env channel_server) (new_channel ''chan'') 2))).
         \<not> leaves_loop (node_env channel_server) soup"
    unfolding p using k1 k2 by simp
  from fetch_reverses_pages_in_fetch_order[OF h k] h p k1 k2 show ?thesis by blast
qed

section \<open>Locations\<close>



section \<open>The contents of a message\<close>

text \<open>
  C5. For every decoded message, each of the eight content loops has returned, and the
  contents list is the concatenation of what they appended, in the order Text, Photo,
  Video, Voice, Document, Location, Poll, UnsupportedMedia; so along the list the kinds
  never go back to an earlier one.
\<close>

theorem contents_in_fixed_order:
  assumes "decode_bubble E bubble = Inr [m]"
  shows "(\<exists>c1 c2 c3 c4 c5 c6 c7 c8.
            get_texts E bubble = Inr c1 \<and> get_photos E bubble = Inr c2
          \<and> get_videos E bubble = Inr c3 \<and> get_voices E bubble = Inr c4
          \<and> get_documents E bubble = Inr c5 \<and> get_locations E bubble = Inr c6
          \<and> get_polls E bubble = Inr c7 \<and> get_unsupported_medias E bubble = Inr c8
          \<and> contents m = c1 @ c2 @ c3 @ c4 @ c5 @ c6 @ c7 @ c8)
       \<and> sorted (map kind_order (contents m))"
proof -
  from assms have gc: "get_contents E bubble = Inr (contents m)"
    by (rule decode_bubble_contents)
  show ?thesis
    by (rule conjI[OF get_contents_parts[OF gc] get_contents_sorted[OF gc]])
qed

theorem contents_in_fixed_order_witness:
  "decode_bubble (node_env channel_server) mixed_bubble = Inr [plain_message ''7'' mixed_contents]
   \<and> (\<exists>c1 c2 c3 c4 c5 c6 c7 c8.
            get_texts (node_env channel_server) mixed_bubble = Inr c1
          \<and> get_photos (node_env channel_server) mixed_bubble = Inr c2
          \<and> get_videos (node_env channel_server) mixed_bubble = Inr c3
          \<and> get_voices (node_env channel_server) mixed_bubble = Inr c4
          \<and> get_documents (node_env channel_server) mixed_bubble = Inr c5
          \<and> get_locations (node_env channel_server) mixed_bubble = Inr c6
          \<and> get_polls (node_env channel_server) mixed_bubble = Inr c7
          \<and> get_unsupported_medias (node_env channel_server) mixed_bubble = Inr c8
          \<and> contents (plain_message ''7'' mixed_contents) = c1 @ c2 @ c3 @ c4 @ c5 @ c6 @ c7 @ c8)
   \<and> sorted (map kind_order (contents (plain_message ''7'' mixed_contents)))"
proof -
  have h: "decode_bubble (node_env channel_server) mixed_bubble
             = Inr [plain_message ''7'' mixed_contents]"
    by code_simp
  show ?thesis by (rule conjI[OF h contents_in_fixed_order[OF h]])
qed

section \<open>Fragments that cannot be decoded\<close>

text \<open>
  C3, as stated, fails. A page holds the message 5 and a bubble without author element:
  the message 5 can be decoded, the other bubble raises AttributeError, and the call
  raises it too instead of returning the message 5.
\<close>

theorem missing_author_counterexample:
  "decode_bubble (node_env anonymous_server) (bubble_node ''5'' [Node ''text'' [] ''five'' []])
     = Inr [plain_message ''5'' [Text ''five'']]
   \<and> decode_bubble (node_env anonymous_server) anonymous_bubble = Inl AttributeError
   \<and> snd (fetch_to_python (node_env anonymous_server) (new_channel ''chan'') 1)
     = Inl AttributeError"
  by code_simp

text \<open>
  C3, amended. When a bubble collected by the call lacks a required identity field (the
  number element or its \<^verbatim>\<open>href\<close>, the author element, the date element or its
  \<^verbatim>\<open>datetime\<close>), decoding that bubble raises, nothing catches the exception, and
  \<^verbatim>\<open>fetch_to_python\<close> raises instead of returning: no message of the call is returned.
\<close>

theorem missing_identity_field_fails_fetch:
  assumes "position self \<noteq> Some ''0''"
    and "bubble \<in> set (page_bubbles E (pages_received self (fst (fetch_to_python E self n))))"
    and "lacks_attribute E bubble MESSAGE_NUMBER ''href''
       \<or> select_one E bubble (selector E MESSAGE_AUTHOR) = None
       \<or> lacks_attribute E bubble MESSAGE_DATE ''datetime''"
  shows "(\<exists>e. decode_bubble E bubble = Inl e) \<and> (\<exists>e. snd (fetch_to_python E self n) = Inl e)"
proof -
  from decode_needs_metadata[OF assms(3)] obtain e where d: "decode_bubble E bubble = Inl e" ..
  from fetch_fails[OF assms(1,2) d] d show ?thesis by blast
qed

theorem missing_identity_field_fails_fetch_witness:
  "position (new_channel ''chan'' :: node TGChannel) \<noteq> Some ''0''
   \<and> anonymous_bubble \<in> set (page_bubbles (node_env anonymous_server)
        (pages_received (new_channel ''chan'')
           (fst (fetch_to_python (node_env anonymous_server) (new_channel ''chan'') 1))))
   \<and> select_one (node_env anonymous_server) anonymous_bubble
        (selector (node_env anonymous_server) MESSAGE_AUTHOR) = None
   \<and> (\<exists>e. decode_bubble (node_env anonymous_server) anonymous_bubble = Inl e)
   \<and> (\<exists>e. snd (fetch_to_python (node_env anonymous_server) (new_channel ''chan'') 1) = Inl e)"
proof -
  have h1: "position (new_channel ''chan'' :: node TGChannel) \<noteq> Some ''0''"
    by (simp add: new_channel_def)
  have h2: "anonymous_bubble \<in> set (page_bubbles (node_env anonymous_server)
        (pages_received (new_channel ''chan'')
           (fst (fetch_to_python (node_env anonymous_server) (new_channel ''chan'') 1))))"
    by code_simp
  have h3: "select_one (node_env anonymous_server) anonymous_bubble
        (selector (node_env anonymous_server) MESSAGE_AUTHOR) = None"
    by code_simp
  from missing_identity_field_fails_fetch[OF h1 h2 disjI2[OF disjI1[OF h3]]] h1 h2 h3
  show ?thesis by blast
qed

text \<open>
  C7, as stated, fails. A bubble holds two photo nodes, the first without \<^verbatim>\<open>style\<close>: the
  photo loop raises KeyError, and so does the call; the second photo is not extracted and
  the message is not returned.
\<close>

theorem photo_without_style_counterexample:
  "get_photos (node_env photo_server) two_photos_bubble = Inl KeyError
   \<and> snd (fetch_to_python (node_env photo_server) (new_channel ''chan'') 1) = Inl KeyError"
  by code_simp

text \<open>
  C7, amended. When a bubble collected by the call has a photo node without \<^verbatim>\<open>style\<close>
  attribute, the subscript raises KeyError and nothing catches it: the photo loop, the
  decoding of the bubble and \<^verbatim>\<open>fetch_to_python\<close> all raise, so no message of the call is
  returned.
\<close>

theorem photo_without_style_fails_fetch:
  assumes "position self \<noteq> Some ''0''"
    and "bubble \<in> set (page_bubbles E (pages_received self (fst (fetch_to_python E self n))))"
    and "photo \<in> set (select E bubble (selector E PHOTO))"
    and "attrs E photo ''style'' = None"
  shows "photo_item E photo = Inl KeyError
       \<and> (\<exists>e. get_photos E bubble = Inl e)
       \<and> (\<exists>e. decode_bubble E bubble = Inl e)
       \<and> (\<exists>e. snd (fetch_to_python E self n) = Inl e)"
proof -
  have i: "photo_item E photo = Inl KeyError" using assms(4) by (rule photo_without_style)
  from for_each_fails[of photo _ "photo_item E", OF assms(3) i]
  obtain e1 where p: "get_photos E bubble = Inl e1" unfolding get_photos_def ..
  from get_contents_fails_if[OF p] obtain e2 where "get_contents E bubble = Inl e2" ..
  from decode_fails_if[OF this] obtain e3 where d: "decode_bubble E bubble = Inl e3" ..
  from fetch_fails[OF assms(1,2) d] i p d show ?thesis by blast
qed

theorem photo_without_style_fails_fetch_witness:
  "position (new_channel ''chan'' :: node TGChannel) \<noteq> Some ''0''
   \<and> two_photos_bubble \<in> set (page_bubbles (node_env photo_server)
        (pages_received (new_channel ''chan'')
           (fst (fetch_to_python (node_env photo_server) (new_channel ''chan'') 1))))
   \<and> photo_node [] \<in> set (select (node_env photo_server) two_photos_bubble
        (selector (node_env photo_server) PHOTO))
   \<and> attrs (node_env photo_server) (photo_node []) ''style'' = None
   \<and> photo_item (node_env photo_server) (photo_node []) = Inl KeyError
   \<and> (\<exists>e. get_photos (node_env photo_server) two_photos_bubble = Inl e)
   \<and> (\<exists>e. decode_bubble (node_env photo_server) two_photos_bubble = Inl e)
   \<and> (\<exists>e. snd (fetch_to_python (node_env photo_server) (new_channel ''chan'') 1) = Inl e)"
proof -
  have h1: "position (new_channel ''chan'' :: node TGChannel) \<noteq> Some ''0''"
    by (simp add: new_channel_def)
  have h2: "two_photos_bubble \<in> set (page_bubbles (node_env photo_server)
        (pages_received (new_channel ''chan'')
           (fst (fetch_to_python (node_env photo_server) (new_channel ''chan'') 1))))"
    by code_simp
  have h3: "photo_node [] \<in> set (select (node_env photo_server) two_photos_bubble
        (selector (node_env photo_server) PHOTO))"
    by code_simp
  have h4: "attrs (node_env photo_server) (photo_node []) ''style'' = None"
    by code_simp
  from photo_without_style_fails_fetch[OF h1 h2 h3 h4] h1 h2 h3 h4
  show ?thesis by blast
qed

section \<open>Where the function departs from its description\<close>

text \<open>
  C2. Three pages are requested from the channel of two pages. The second page has no
  pagination element: the cursor becomes \<^verbatim>\<open>"0"\<close>, its messages are kept, and the loop goes
  on with a third request, \<^verbatim>\<open>before=0\<close>. The answer's messages are appended after those
  of the pages 1 and 2, and its cursor replaces the sentinel.
\<close>

theorem missing_control_does_not_stop_loop:
  "snd (fetch_to_python (node_env channel_server) (new_channel ''chan'') 3)
     = Inr [plain_message ''6'' [Text ''six''], plain_message ''5'' [Text ''five''],
            plain_message ''4'' [], plain_message ''3'' [],
            plain_message ''6'' [Text ''six''], plain_message ''5'' [Text ''five'']]
   \<and> map fst (session_object
        (fst (fetch_to_python (node_env channel_server) (new_channel ''chan'') 3)))
     = [(''https://t.me/s/chan'', None), (''https://t.me/s/chan'', Some ''5''),
        (''https://t.me/s/chan'', Some ''0'')]
   \<and> position (fst (fetch_to_python (node_env channel_server) (new_channel ''chan'') 3))
     = Some ''5''"
  by code_simp

text \<open>
  C8. A bubble with one voice node, carrying its audio source and its duration: the voice
  loop subscripts the list that \<^verbatim>\<open>select\<close> returns with \<^verbatim>\<open>"src"\<close>, which is a TypeError,
  and the call raises it; no Voice item is produced.
\<close>

theorem voice_node_raises_TypeError:
  "select (node_env voice_server) voice_bubble (selector (node_env voice_server) VOICE)
     = [Node ''voice'' [] []
          [Node ''voice_url'' [(''src'', ''https://cdn.t.me/voice.ogg'')] [] [],
           Node ''voice_duration'' [] ''0:07'' []]]
   \<and> get_voices (node_env voice_server) voice_bubble = Inl TypeError
   \<and> snd (fetch_to_python (node_env voice_server) (new_channel ''chan'') 1) = Inl TypeError"
  by code_simp

text \<open>
  C9. A bubble with two unsupported-media nodes, the first without link element: there
  \<^verbatim>\<open>select_one\<close> returns \<^verbatim>\<open>None\<close>, the subscript is a TypeError, which the handler for
  KeyError does not catch, and the call raises it; the node is not dropped silently and
  the item of the second node is not returned.
\<close>

theorem unsupported_without_link_element_raises:
  "select_one (node_env bare_media_server) bare_media
       (selector (node_env bare_media_server) UNSUPPORTED_MEDIA_URL) = None
   \<and> unsupported_media_item (node_env bare_media_server) bare_media = Inl TypeError
   \<and> unsupported_media_item (node_env bare_media_server) linked_media
     = Inr [UnsupportedMedia ''https://t.me/chan/8'']
   \<and> get_unsupported_medias (node_env bare_media_server) bare_media_bubble = Inl TypeError
   \<and> snd (fetch_to_python (node_env bare_media_server) (new_channel ''chan'') 1)
     = Inl TypeError"
  by code_simp

end
